theory Spec2Isabelle
  imports Main "HOL-Library.Word"
begin

section \<open>Data model of \<open>payload_consumer/vabc_partition_writer.cc\<close>\<close>

text \<open>
  Machine integers are 64-bit words. \<open>uint64_t\<close> and \<open>size_t\<close> are read unsigned,
  \<open>int64_t\<close>, \<open>ssize_t\<close> and \<open>off_t\<close> are read with \<open>sint\<close>; a conversion between
  them keeps the bit pattern, so it is the identity on \<open>64 word\<close>.
\<close>

type_synonym u64 = "64 word"
type_synonym i64 = "64 word"
type_synonym byte = "8 word"

text \<open>Modelled from the spec: \<open>CowOperation\<close>, declared in
  \<open>common/cow_operation_convert.h\<close> outside this file, is the primitive block
  operation of the spec, \<open>Copy(src_block, dst_block)\<close> or
  \<open>Replace(src_block, dst_block)\<close>; the switch of \<open>WriteAllCowOps\<close> reads its
  type tag \<open>op\<close> and its two block numbers.\<close>

datatype CowOperationType = CowCopy | CowReplace

record CowOperation =
  op :: CowOperationType
  src_block :: u64
  dst_block :: u64

text \<open>Modelled from the spec: the messages of the update manifest, declared outside
  this file. An extent is a start block and a number of blocks; an install operation
  carries source and destination extents, of which this file reads the destination
  extents; a merge operation is only handed to the converter; of the install plan
  this file reads \<open>is_resume\<close>.\<close>

record Extent =
  start_block :: u64
  num_blocks :: u64

record InstallOperation =
  src_extents :: "Extent list"
  dst_extents :: "Extent list"

record CowMergeOperation =
  merge_src_extent :: Extent
  merge_dst_extent :: Extent

record InstallPlan =
  is_resume :: bool

text \<open>The keys of the preference store. The writer uses one key only; its spelling
  is declared outside this file, so the key is a constructor of its own.\<close>

datatype pref_key = kPrefsUpdateStatePartitionNextOperation | OtherPref string

text \<open>Every call the writer makes on a collaborator (base class, dynamic control,
  preference store, operation converter, source file descriptor, COW writer), with
  the arguments it passes.\<close>

datatype call =
    BaseInit bool
  | OpenCowWriter string string bool
  | PrefsGetInt64 pref_key
  | PrefsSetInt64 pref_key i64
  | ConvertToCowOperations
  | PReadAll u64 u64
  | CowInitialize
  | CowInitializeAppend u64
  | CowAddCopy u64 u64
  | CowAddRawBlocks u64 "byte list" u64
  | CowAddZeroBlocks u64 u64
  | CowAddLabel u64
  | CowFinalize

text \<open>
  The collaborators are outside this file. Their behaviour is a parameter of every
  function below: \<open>succeeds h c\<close> says whether the call \<open>c\<close>, made after the calls
  \<open>h\<close>, succeeds: it is the boolean the call returns (for \<open>OpenCowWriter\<close>: whether
  the pointer is non-null), also where the writer does not look at it (\<open>AddLabel\<close>,
  \<open>Finalize\<close>); \<open>pread h count offset\<close> is what \<open>utils::PReadAll\<close> returns for
  \<open>count\<close> bytes at \<open>offset\<close>: its boolean, the value it stores in
  \<open>bytes_read\<close>, and the bytes it puts at the start of the buffer; \<open>convert\<close> is
  the pure function \<open>ConvertToCowOperations\<close>.
\<close>

record collaborators =
  succeeds :: "call list \<Rightarrow> call \<Rightarrow> bool"
  pread :: "call list \<Rightarrow> u64 \<Rightarrow> u64 \<Rightarrow> bool \<times> i64 \<times> byte list"
  convert :: "InstallOperation list \<Rightarrow> CowMergeOperation list \<Rightarrow> CowOperation list"

text \<open>
  The state the functions work on: the members of the writer that this file reads
  (\<open>block_size_\<close>, \<open>install_part_\<close>, \<open>partition_update_\<close>, and whether
  \<open>cow_writer_\<close> is non-null), the content of the preference store, and the calls
  made so far, oldest first.
\<close>

record VABCPartitionWriter =
  block_size :: u64
  partition_name :: string
  source_path :: string
  operations :: "InstallOperation list"
  merge_operations :: "CowMergeOperation list"
  cow_writer :: bool
  prefs :: "pref_key \<rightharpoonup> i64"
  calls :: "call list"

text \<open>Dereferencing a null \<open>cow_writer_\<close> is not a return of the function.\<close>

datatype error = NullPointerDereference

section \<open>Calls on the collaborators\<close>

definition record_call :: "call \<Rightarrow> VABCPartitionWriter \<Rightarrow> VABCPartitionWriter" where
  "record_call c w = w\<lparr>calls := calls w @ [c]\<rparr>"

text \<open>A call that returns a boolean and changes nothing the writer can read back.\<close>

definition external_call ::
  "collaborators \<Rightarrow> call \<Rightarrow> VABCPartitionWriter \<Rightarrow> bool \<times> VABCPartitionWriter" where
  "external_call E c w = (succeeds E (calls w) c, record_call c w)"

text \<open>Modelled from the spec: \<open>prefs_->GetInt64(key, &value)\<close>, implemented outside
  this file, is the get of the checkpoint store, \<open>GetInt(key) -> (value, ok)\<close>: it
  gives the stored value, fails when the store fails or holds nothing under the key,
  and leaves the store as it is.\<close>

definition GetInt64 ::
  "collaborators \<Rightarrow> pref_key \<Rightarrow> VABCPartitionWriter \<Rightarrow> i64 option \<times> VABCPartitionWriter" where
  "GetInt64 E key w =
     (if succeeds E (calls w) (PrefsGetInt64 key)
      then (prefs w key, record_call (PrefsGetInt64 key) w)
      else (None, record_call (PrefsGetInt64 key) w))"

text \<open>Modelled from the spec: \<open>prefs_->SetInt64(key, value)\<close>, implemented outside
  this file, is the set of the checkpoint store, \<open>SetInt(key, value) -> ok\<close>: the
  store holds the value when the write succeeds and keeps its content when it
  fails.\<close>

definition SetInt64 ::
  "collaborators \<Rightarrow> pref_key \<Rightarrow> i64 \<Rightarrow> VABCPartitionWriter \<Rightarrow> bool \<times> VABCPartitionWriter" where
  "SetInt64 E key v w =
     (if succeeds E (calls w) (PrefsSetInt64 key v)
      then (True, (record_call (PrefsSetInt64 key v) w)\<lparr>prefs := (prefs w)(key \<mapsto> v)\<rparr>)
      else (False, record_call (PrefsSetInt64 key v) w))"

text \<open>Modelled from the spec: \<open>utils::PReadAll(source_fd, buffer.data(), count,
  offset, &bytes_read)\<close>, implemented outside this file, is the read of the block
  source, \<open>ReadAt(buffer, length, byteOffset) -> bytesRead\<close>, with a boolean for
  failure. \<open>bytes_read\<close> was initialised to 0 by the caller and is written on
  success only; the bytes read replace the start of the buffer, whose size does not
  change.\<close>

definition overwrite :: "byte list \<Rightarrow> byte list \<Rightarrow> byte list" where
  "overwrite buffer bytes = take (length buffer) (bytes @ drop (length bytes) buffer)"

definition PReadAll_into ::
  "collaborators \<Rightarrow> byte list \<Rightarrow> u64 \<Rightarrow> u64 \<Rightarrow> VABCPartitionWriter
     \<Rightarrow> bool \<times> i64 \<times> byte list \<times> VABCPartitionWriter" where
  "PReadAll_into E buffer count offset w =
     (case pread E (calls w) count offset of
        (ok, n, bytes) \<Rightarrow>
          (ok, (if ok then n else 0), overwrite buffer bytes,
           record_call (PReadAll count offset) w))"

section \<open>The functions of the writer\<close>

text \<open>\<open>WriteAllCowOps\<close>, lines 103 to 133. The loop runs over the converted
  operations with the one buffer. The macro \<open>TEST_AND_RETURN_FALSE\<close> is defined
  outside this file; in every function below it is read as its name and the spec say
  (a failed step is returned to the caller at once): the enclosing function returns
  false when the argument is false, and goes on otherwise.\<close>

fun WriteAllCowOps_loop ::
  "collaborators \<Rightarrow> u64 \<Rightarrow> CowOperation list \<Rightarrow> byte list \<Rightarrow> VABCPartitionWriter
     \<Rightarrow> bool \<times> byte list \<times> VABCPartitionWriter" where
  "WriteAllCowOps_loop E bs [] buffer w = (True, buffer, w)"
| "WriteAllCowOps_loop E bs (cow_op # rest) buffer w =
     (case op cow_op of
        CowCopy \<Rightarrow>
          (case external_call E (CowAddCopy (dst_block cow_op) (src_block cow_op)) w of
             (ok, w1) \<Rightarrow>
               if \<not> ok then (False, buffer, w1)
               else WriteAllCowOps_loop E bs rest buffer w1)
      | CowReplace \<Rightarrow>
          (case PReadAll_into E buffer bs (src_block cow_op * bs) w of
             (ok, bytes_read, buffer1, w1) \<Rightarrow>
               if \<not> ok then (False, buffer1, w1)
               else if sint bytes_read \<le> 0 \<or> bytes_read \<noteq> bs then (False, buffer1, w1)
               else
                 (case external_call E (CowAddRawBlocks (dst_block cow_op) buffer1 bs) w1 of
                    (ok2, w2) \<Rightarrow>
                      if \<not> ok2 then (False, buffer1, w2)
                      else WriteAllCowOps_loop E bs rest buffer1 w2)))"

definition WriteAllCowOps ::
  "collaborators \<Rightarrow> u64 \<Rightarrow> CowOperation list \<Rightarrow> VABCPartitionWriter
     \<Rightarrow> bool \<times> VABCPartitionWriter" where
  "WriteAllCowOps E bs converted w =
     (case WriteAllCowOps_loop E bs converted (replicate (unat bs) 0) w of
        (ok, buffer, w') \<Rightarrow> (ok, w'))"

text \<open>\<open>Init\<close>, lines 88 to 100: the part after the resume handling. The results of
  \<open>WriteAllCowOps\<close> and of \<open>AddLabel\<close> are not used.\<close>

definition Init_copy_phase ::
  "collaborators \<Rightarrow> VABCPartitionWriter \<Rightarrow> bool \<times> VABCPartitionWriter" where
  "Init_copy_phase E w =
     (case SetInt64 E kPrefsUpdateStatePartitionNextOperation (- 1) w of
        (ok1, w1) \<Rightarrow>
          if \<not> ok1 then (False, w1)
          else
            (let converted = convert E (operations w1) (merge_operations w1);
                 w2 = record_call ConvertToCowOperations w1
             in case WriteAllCowOps E (block_size w2) converted w2 of
                  (ignored1, w3) \<Rightarrow>
                    (case external_call E (CowAddLabel 0) w3 of
                       (ignored2, w4) \<Rightarrow>
                         (case SetInt64 E kPrefsUpdateStatePartitionNextOperation 0 w4 of
                            (ok5, w5) \<Rightarrow>
                              if \<not> ok5 then (False, w5) else (True, w5)))))"

text \<open>\<open>Init\<close>, lines 57 to 86, continued by the part above. A null \<open>install_plan\<close>
  is \<open>None\<close>.\<close>

definition Init ::
  "collaborators \<Rightarrow> InstallPlan option \<Rightarrow> bool \<Rightarrow> VABCPartitionWriter
     \<Rightarrow> bool \<times> VABCPartitionWriter" where
  "Init E install_plan source_may_exist w =
     (case install_plan of
        None \<Rightarrow> (False, w)
      | Some plan \<Rightarrow>
          (case external_call E (BaseInit source_may_exist) w of
             (ok0, w0) \<Rightarrow>
               if \<not> ok0 then (False, w0)
               else
                 (case external_call E
                         (OpenCowWriter (partition_name w0) (source_path w0) (is_resume plan)) w0 of
                    (non_null, w1') \<Rightarrow>
                      (let w1 = w1'\<lparr>cow_writer := non_null\<rparr> in
                       if \<not> cow_writer w1 then (False, w1)
                       else if is_resume plan then
                         (case GetInt64 E kPrefsUpdateStatePartitionNextOperation w1 of
                            (None, w2) \<Rightarrow> (False, w2)
                          | (Some next_op, w2) \<Rightarrow>
                              if sint next_op < 0 then
                                (case external_call E CowInitialize w2 of
                                   (ok3, w3) \<Rightarrow>
                                     if \<not> ok3 then (False, w3) else Init_copy_phase E w3)
                              else
                                (case external_call E (CowInitializeAppend next_op) w2 of
                                   (ok3, w3) \<Rightarrow>
                                     if \<not> ok3 then (False, w3) else (True, w3)))
                       else
                         (case external_call E CowInitialize w1 of
                            (ok3, w3) \<Rightarrow>
                              if \<not> ok3 then (False, w3) else Init_copy_phase E w3)))))"

text \<open>\<open>PerformZeroOrDiscardOperation\<close>, lines 139 to 146: the loop over the
  destination extents, each iteration a call through \<open>cow_writer_\<close>.\<close>

fun AddZeroBlocks_loop ::
  "collaborators \<Rightarrow> Extent list \<Rightarrow> VABCPartitionWriter
     \<Rightarrow> error + bool \<times> VABCPartitionWriter" where
  "AddZeroBlocks_loop E [] w = Inr (True, w)"
| "AddZeroBlocks_loop E (extent # rest) w =
     (if \<not> cow_writer w then Inl NullPointerDereference
      else
        (case external_call E (CowAddZeroBlocks (start_block extent) (num_blocks extent)) w of
           (ok, w1) \<Rightarrow>
             if \<not> ok then Inr (False, w1) else AddZeroBlocks_loop E rest w1))"

definition PerformZeroOrDiscardOperation ::
  "collaborators \<Rightarrow> InstallOperation \<Rightarrow> VABCPartitionWriter
     \<Rightarrow> error + bool \<times> VABCPartitionWriter" where
  "PerformZeroOrDiscardOperation E operation w = AddZeroBlocks_loop E (dst_extents operation) w"

text \<open>\<open>PerformSourceCopyOperation\<close>, lines 148 to 153; \<open>err\<close> is what the
  \<open>ErrorCode\<close> pointer points to.\<close>

definition PerformSourceCopyOperation ::
  "InstallOperation \<Rightarrow> 'e \<Rightarrow> VABCPartitionWriter \<Rightarrow> bool \<times> 'e \<times> VABCPartitionWriter" where
  "PerformSourceCopyOperation operation err w = (True, err, w)"

text \<open>\<open>Flush\<close>, lines 155 to 167. The result of \<open>AddLabel\<close> is not used.\<close>

definition Flush ::
  "collaborators \<Rightarrow> VABCPartitionWriter \<Rightarrow> error + bool \<times> VABCPartitionWriter" where
  "Flush E w =
     (case GetInt64 E kPrefsUpdateStatePartitionNextOperation w of
        (None, w1) \<Rightarrow> Inr (False, w1)
      | (Some next_op, w1) \<Rightarrow>
          if \<not> cow_writer w1 then Inl NullPointerDereference
          else
            (case external_call E (CowAddLabel (next_op + 1)) w1 of
               (ignored, w2) \<Rightarrow> Inr (True, w2)))"

text \<open>\<open>CheckpointUpdateProgress\<close>, lines 169 to 171: a \<open>void\<close> function; the
  result of \<open>SetInt64\<close> is not used.\<close>

definition CheckpointUpdateProgress ::
  "collaborators \<Rightarrow> u64 \<Rightarrow> VABCPartitionWriter \<Rightarrow> unit \<times> VABCPartitionWriter" where
  "CheckpointUpdateProgress E next_op_index w =
     (case SetInt64 E kPrefsUpdateStatePartitionNextOperation next_op_index w of
        (ignored, w1) \<Rightarrow> ((), w1))"

text \<open>The destructor, lines 173 to 178. The results of \<open>SetInt64\<close> and of
  \<open>Finalize\<close> are not used.\<close>

definition destructor ::
  "collaborators \<Rightarrow> VABCPartitionWriter \<Rightarrow> error + VABCPartitionWriter" where
  "destructor E w =
     (case SetInt64 E kPrefsUpdateStatePartitionNextOperation (- 1) w of
        (ignored1, w1) \<Rightarrow>
          if \<not> cow_writer w1 then Inl NullPointerDereference
          else
            (case external_call E CowFinalize w1 of
               (ignored2, w2) \<Rightarrow> Inr w2))"

section \<open>Vocabulary of the properties and concrete runs\<close>

abbreviation next_op_key :: pref_key where
  "next_op_key \<equiv> kPrefsUpdateStatePartitionNextOperation"

text \<open>The calls by which \<open>WriteAllCowOps\<close> streams the copy phase: a copy record,
  a read of the source, a record of raw blocks.\<close>

fun is_copy_phase_write :: "call \<Rightarrow> bool" where
  "is_copy_phase_write (CowAddCopy d s) = True"
| "is_copy_phase_write (PReadAll n off) = True"
| "is_copy_phase_write (CowAddRawBlocks d b n) = True"
| "is_copy_phase_write c = False"

fun is_prefs_write :: "call \<Rightarrow> bool" where
  "is_prefs_write (PrefsSetInt64 key v) = True"
| "is_prefs_write c = False"

text \<open>The call \<open>PerformZeroOrDiscardOperation\<close> makes for an extent, and whether
  the COW writer accepts the call for extent number \<open>i\<close> (from 0) of \<open>exts\<close>, made
  from \<open>w\<close> after the calls for the extents before it.\<close>

definition zero_call :: "Extent \<Rightarrow> call" where
  "zero_call extent = CowAddZeroBlocks (start_block extent) (num_blocks extent)"

definition zero_accepted ::
  "collaborators \<Rightarrow> VABCPartitionWriter \<Rightarrow> Extent list \<Rightarrow> nat \<Rightarrow> bool" where
  "zero_accepted E w exts i =
     succeeds E (calls w @ map zero_call (take i exts)) (zero_call (exts ! i))"

text \<open>A writer before \<open>Init\<close> (block size 2, to keep buffers short), and the same
  writer holding a COW writer with the checkpoint at \<open>n\<close>.\<close>

definition writer0 :: VABCPartitionWriter where
  "writer0 = \<lparr>block_size = 2, partition_name = ''system'', source_path = ''system_a'',
              operations = [], merge_operations = [], cow_writer = False,
              prefs = Map.empty, calls = []\<rparr>"

definition writer_at :: "i64 \<Rightarrow> VABCPartitionWriter" where
  "writer_at n = writer0\<lparr>cow_writer := True, prefs := [next_op_key \<mapsto> n]\<rparr>"

definition example_ops :: "CowOperation list" where
  "example_ops = [\<lparr>op = CowCopy, src_block = 10, dst_block = 0\<rparr>,
                  \<lparr>op = CowReplace, src_block = 20, dst_block = 1\<rparr>]"

definition example_zero :: InstallOperation where
  "example_zero = \<lparr>src_extents = [],
                    dst_extents = [\<lparr>start_block = 0, num_blocks = 4\<rparr>,
                                   \<lparr>start_block = 8, num_blocks = 2\<rparr>,
                                   \<lparr>start_block = 16, num_blocks = 1\<rparr>]\<rparr>"

text \<open>Collaborators: every call succeeds and a read fills the two-byte block; then
  the same with one kind of call failing.\<close>

definition all_succeed :: collaborators where
  "all_succeed = \<lparr>succeeds = (\<lambda>h c. True),
                  pread = (\<lambda>h count offset. (True, count, [7, 9])),
                  convert = (\<lambda>ops merge_ops. example_ops)\<rparr>"

definition copy_rejected :: collaborators where
  "copy_rejected =
     all_succeed\<lparr>succeeds := (\<lambda>h c. case c of CowAddCopy d s \<Rightarrow> False | _ \<Rightarrow> True)\<rparr>"

definition label_rejected :: collaborators where
  "label_rejected =
     all_succeed\<lparr>succeeds := (\<lambda>h c. case c of CowAddLabel n \<Rightarrow> False | _ \<Rightarrow> True)\<rparr>"

definition store_rejects :: collaborators where
  "store_rejects =
     all_succeed\<lparr>succeeds := (\<lambda>h c. case c of PrefsSetInt64 key v \<Rightarrow> False | _ \<Rightarrow> True)\<rparr>"

definition no_cow_writer :: collaborators where
  "no_cow_writer =
     all_succeed\<lparr>succeeds := (\<lambda>h c. case c of OpenCowWriter n p r \<Rightarrow> False | _ \<Rightarrow> True)\<rparr>"

definition short_read :: collaborators where
  "short_read = all_succeed\<lparr>pread := (\<lambda>h count offset. (True, 1, [7]))\<rparr>"

definition second_zero_rejected :: collaborators where
  "second_zero_rejected =
     all_succeed\<lparr>succeeds := (\<lambda>h c. c \<noteq> CowAddZeroBlocks 8 2)\<rparr>"


section \<open>Shared facts\<close>

lemmas call_defs =
  external_call_def GetInt64_def SetInt64_def PReadAll_into_def record_call_def

text \<open>The loop of \<open>WriteAllCowOps\<close> only appends copy-phase calls, and changes
  nothing else of the state.\<close>

lemma WriteAllCowOps_loop_calls:
  "\<exists>ws. calls (snd (snd (WriteAllCowOps_loop E bs ops buffer w))) = calls w @ ws
        \<and> list_all is_copy_phase_write ws"
proof (induction ops arbitrary: buffer w)
  case Nil
  show ?case by simp
next
  case (Cons c rest)
  show ?case
  proof (cases "op c")
    case CowCopy
    let ?w1 = "record_call (CowAddCopy (dst_block c) (src_block c)) w"
    from Cons.IH [of buffer ?w1]
    obtain ws where "calls (snd (snd (WriteAllCowOps_loop E bs rest buffer ?w1))) = calls ?w1 @ ws"
       and "list_all is_copy_phase_write ws" by blast
    with CowCopy show ?thesis
      by (simp add: external_call_def record_call_def)
  next
    case CowReplace
    obtain ok n bytes where p: "pread E (calls w) bs (src_block c * bs) = (ok, n, bytes)"
      by (cases "pread E (calls w) bs (src_block c * bs)") auto
    let ?w1 = "record_call (PReadAll bs (src_block c * bs)) w"
    let ?b1 = "overwrite buffer bytes"
    let ?w2 = "record_call (CowAddRawBlocks (dst_block c) ?b1 bs) ?w1"
    from Cons.IH [of ?b1 ?w2]
    obtain ws where "calls (snd (snd (WriteAllCowOps_loop E bs rest ?b1 ?w2))) = calls ?w2 @ ws"
       and "list_all is_copy_phase_write ws" by blast
    with CowReplace p show ?thesis
      by (simp add: external_call_def PReadAll_into_def record_call_def)
  qed
qed

lemma WriteAllCowOps_loop_frame:
  "snd (snd (WriteAllCowOps_loop E bs ops buffer w)) =
     w\<lparr>calls := calls (snd (snd (WriteAllCowOps_loop E bs ops buffer w)))\<rparr>"
proof (induction ops arbitrary: buffer w)
  case Nil
  show ?case by simp
next
  case (Cons c rest)
  show ?case
  proof (cases "op c")
    case CowCopy
    let ?w1 = "record_call (CowAddCopy (dst_block c) (src_block c)) w"
    from Cons.IH [of buffer ?w1] CowCopy show ?thesis
      by (simp add: external_call_def record_call_def)
  next
    case CowReplace
    obtain ok n bytes where p: "pread E (calls w) bs (src_block c * bs) = (ok, n, bytes)"
      by (cases "pread E (calls w) bs (src_block c * bs)") auto
    let ?w1 = "record_call (PReadAll bs (src_block c * bs)) w"
    let ?b1 = "overwrite buffer bytes"
    let ?w2 = "record_call (CowAddRawBlocks (dst_block c) ?b1 bs) ?w1"
    from Cons.IH [of ?b1 ?w2] CowReplace p show ?thesis
      by (simp add: external_call_def PReadAll_into_def record_call_def)
  qed
qed

lemma WriteAllCowOps_calls:
  "\<exists>ws. calls (snd (WriteAllCowOps E bs ops w)) = calls w @ ws
        \<and> list_all is_copy_phase_write ws"
  using WriteAllCowOps_loop_calls [of E bs ops "replicate (unat bs) 0" w]
  by (simp add: WriteAllCowOps_def split_beta)

lemma WriteAllCowOps_frame:
  "snd (WriteAllCowOps E bs ops w) = w\<lparr>calls := calls (snd (WriteAllCowOps E bs ops w))\<rparr>"
  using WriteAllCowOps_loop_frame [of E bs ops "replicate (unat bs) 0" w]
  by (simp add: WriteAllCowOps_def split_beta)

text \<open>Operations after a prefix are processed from where the prefix stopped, and not
  at all when the prefix failed.\<close>

lemma WriteAllCowOps_loop_append:
  "WriteAllCowOps_loop E bs (pre @ post) buffer w =
     (case WriteAllCowOps_loop E bs pre buffer w of
        (ok, b, w') \<Rightarrow> if ok then WriteAllCowOps_loop E bs post b w' else (False, b, w'))"
proof (induction pre arbitrary: buffer w)
  case Nil
  show ?case by simp
next
  case (Cons c pre)
  show ?case
    by (cases "op c") (simp_all add: Cons.IH split: prod.splits)
qed

text \<open>A fresh start reaches the copy phase as soon as the log is initialised.\<close>

lemma Init_fresh:
  assumes "\<not> is_resume plan"
      and "succeeds E (calls w) (BaseInit source_may_exist)"
      and "succeeds E (calls w @ [BaseInit source_may_exist])
             (OpenCowWriter (partition_name w) (source_path w) False)"
      and "w1 = w\<lparr>cow_writer := True,
                   calls := calls w @ [BaseInit source_may_exist,
                                       OpenCowWriter (partition_name w) (source_path w) False,
                                       CowInitialize]\<rparr>"
  shows "Init E (Some plan) source_may_exist w =
           (if succeeds E (calls w @ [BaseInit source_may_exist,
                                      OpenCowWriter (partition_name w) (source_path w) False])
                 CowInitialize
            then Init_copy_phase E w1 else (False, w1))"
  using assms by (auto simp add: Init_def call_defs)

text \<open>Once \<open>OpenCowWriter\<close> has returned a writer, \<open>Init\<close> leaves the writer in
  place whatever it returns.\<close>

lemma Init_copy_phase_cow_writer:
  "cow_writer (snd (Init_copy_phase E w)) = cow_writer w"
proof -
  have "\<And>bs ops v. cow_writer (snd (WriteAllCowOps E bs ops v)) = cow_writer v"
    by (subst WriteAllCowOps_frame) simp
  then show ?thesis
    by (simp add: Init_copy_phase_def call_defs Let_def split_beta)
qed

lemma Init_cow_writer:
  assumes "succeeds E (calls w) (BaseInit source_may_exist)"
      and "succeeds E (calls w @ [BaseInit source_may_exist])
             (OpenCowWriter (partition_name w) (source_path w) (is_resume plan))"
  shows "cow_writer (snd (Init E (Some plan) source_may_exist w))"
  using assms
  by (cases "is_resume plan")
     (auto simp add: Init_def call_defs Let_def Init_copy_phase_cow_writer split: option.splits)

text \<open>The destructor of a writer that holds a COW writer: one store write of
  \<open>-1\<close>, then one \<open>Finalize\<close>.\<close>

lemma destructor_with_cow_writer:
  assumes "cow_writer w"
  shows "destructor E w =
     Inr (if succeeds E (calls w) (PrefsSetInt64 next_op_key (- 1))
          then w\<lparr>prefs := (prefs w)(next_op_key \<mapsto> - 1),
                 calls := calls w @ [PrefsSetInt64 next_op_key (- 1), CowFinalize]\<rparr>
          else w\<lparr>calls := calls w @ [PrefsSetInt64 next_op_key (- 1), CowFinalize]\<rparr>)"
  using assms by (simp add: destructor_def call_defs)

text \<open>The loop over the extents: all calls accepted, or a first one rejected.\<close>

lemma zero_accepted_Cons:
  "zero_accepted E w (e # rest) 0 = succeeds E (calls w) (zero_call e)"
  "zero_accepted E w (e # rest) (Suc i) = zero_accepted E (record_call (zero_call e) w) rest i"
  by (simp_all add: zero_accepted_def record_call_def)

lemma AddZeroBlocks_loop_all:
  "cow_writer w \<Longrightarrow> \<forall>i<length exts. zero_accepted E w exts i \<Longrightarrow>
   AddZeroBlocks_loop E exts w = Inr (True, w\<lparr>calls := calls w @ map zero_call exts\<rparr>)"
proof (induction exts arbitrary: w)
  case Nil
  show ?case by simp
next
  case (Cons e rest)
  let ?w1 = "record_call (zero_call e) w"
  have head: "succeeds E (calls w) (zero_call e)"
    using Cons.prems(2) zero_accepted_Cons(1) [of E w e rest] by auto
  have tail: "\<forall>i<length rest. zero_accepted E ?w1 rest i"
    using Cons.prems(2) zero_accepted_Cons(2) [of E w e rest] by auto
  have "cow_writer ?w1" using Cons.prems(1) by (simp add: record_call_def)
  from Cons.IH [OF this tail] head Cons.prems(1) show ?case
    by (simp add: external_call_def record_call_def zero_call_def)
qed

lemma AddZeroBlocks_loop_first_failure:
  "cow_writer w \<Longrightarrow> n < length exts \<Longrightarrow> \<forall>i<n. zero_accepted E w exts i \<Longrightarrow>
   \<not> zero_accepted E w exts n \<Longrightarrow>
   AddZeroBlocks_loop E exts w =
     Inr (False, w\<lparr>calls := calls w @ map zero_call (take (Suc n) exts)\<rparr>)"
proof (induction exts arbitrary: w n)
  case Nil
  then show ?case by simp
next
  case (Cons e rest)
  let ?w1 = "record_call (zero_call e) w"
  show ?case
  proof (cases n)
    case 0
    with Cons.prems show ?thesis
      by (simp add: zero_accepted_Cons external_call_def record_call_def zero_call_def)
  next
    case (Suc m)
    have head: "succeeds E (calls w) (zero_call e)"
      using Cons.prems(3) Suc zero_accepted_Cons(1) [of E w e rest] by auto
    have tail: "\<forall>i<m. zero_accepted E ?w1 rest i"
      using Cons.prems(3) Suc zero_accepted_Cons(2) [of E w e rest] by auto
    have bad: "\<not> zero_accepted E ?w1 rest m"
      using Cons.prems(4) Suc zero_accepted_Cons(2) [of E w e rest] by auto
    have m: "m < length rest" using Cons.prems(2) Suc by simp
    have "cow_writer ?w1" using Cons.prems(1) by (simp add: record_call_def)
    from Cons.IH [OF this m tail bad] head Cons.prems(1) Suc show ?thesis
      by (simp add: external_call_def record_call_def zero_call_def)
  qed
qed

section \<open>Initialisation\<close>

text \<open>
  C1. Claimed: when streaming the converted operations fails during the copy phase of
  a fresh \<open>Init\<close>, \<open>Init\<close> returns failure, the checkpoint stays at \<open>-1\<close>, and
  neither label 0 nor checkpoint 0 follows. The code drops the result of
  \<open>WriteAllCowOps\<close> (line 95): in the run below the COW writer rejects the first
  copy record, \<open>WriteAllCowOps\<close> returns false without reaching the second
  operation, and \<open>Init\<close> still adds label 0, stores checkpoint 0 and returns true.
\<close>

theorem Init_continues_after_failed_copy_phase:
  "Init copy_rejected (Some \<lparr>is_resume = False\<rparr>) True writer0 =
     (True, writer0\<lparr>cow_writer := True,
                     prefs := [next_op_key \<mapsto> 0],
                     calls := [BaseInit True, OpenCowWriter ''system'' ''system_a'' False,
                               CowInitialize, PrefsSetInt64 next_op_key (- 1),
                               ConvertToCowOperations, CowAddCopy 0 10, CowAddLabel 0,
                               PrefsSetInt64 next_op_key 0]\<rparr>)
   \<and> fst (WriteAllCowOps copy_rejected 2 example_ops
            (writer0\<lparr>cow_writer := True, prefs := [next_op_key \<mapsto> - 1],
                      calls := [BaseInit True, OpenCowWriter ''system'' ''system_a'' False,
                                CowInitialize, PrefsSetInt64 next_op_key (- 1),
                                ConvertToCowOperations]\<rparr>)) = False"
  by (simp add: Init_def Init_copy_phase_def WriteAllCowOps_def call_defs
        copy_rejected_def all_succeed_def writer0_def example_ops_def)

text \<open>
  C2. Whenever \<open>Init\<close> reaches the copy phase (lines 88 to 100, entered on a fresh
  start and on a resume with a negative checkpoint once the log is initialised), its
  actions come in this order. First the store write of \<open>-1\<close>; when the store rejects
  it, nothing else happens. Otherwise the converter is called and the operations are
  streamed from a state \<open>w2\<close> whose checkpoint is \<open>-1\<close>: the calls \<open>ws\<close> of
  \<open>WriteAllCowOps\<close>, all of them copy records, source reads or raw-block records.
  Then label 0 is added, then the store write of \<open>0\<close> is made, and the checkpoint
  is 0 exactly when that last write succeeds.
\<close>

theorem Init_copy_phase_order:
  "if succeeds E (calls w) (PrefsSetInt64 next_op_key (- 1))
   then (let w2 = w\<lparr>prefs := (prefs w)(next_op_key \<mapsto> - 1),
                      calls := calls w @ [PrefsSetInt64 next_op_key (- 1),
                                          ConvertToCowOperations]\<rparr>
         in \<exists>ws. list_all is_copy_phase_write ws
              \<and> snd (WriteAllCowOps E (block_size w)
                        (convert E (operations w) (merge_operations w)) w2)
                  = w2\<lparr>calls := calls w2 @ ws\<rparr>
              \<and> Init_copy_phase E w =
                  (if succeeds E (calls w2 @ ws @ [CowAddLabel 0]) (PrefsSetInt64 next_op_key 0)
                   then (True, w2\<lparr>prefs := (prefs w2)(next_op_key \<mapsto> 0),
                                  calls := calls w2 @ ws
                                             @ [CowAddLabel 0, PrefsSetInt64 next_op_key 0]\<rparr>)
                   else (False, w2\<lparr>calls := calls w2 @ ws
                                             @ [CowAddLabel 0, PrefsSetInt64 next_op_key 0]\<rparr>)))
   else Init_copy_phase E w =
          (False, w\<lparr>calls := calls w @ [PrefsSetInt64 next_op_key (- 1)]\<rparr>)"
proof (cases "succeeds E (calls w) (PrefsSetInt64 next_op_key (- 1))")
  case False
  then show ?thesis by (simp add: Init_copy_phase_def call_defs)
next
  case True
  define w2 where "w2 = w\<lparr>prefs := (prefs w)(next_op_key \<mapsto> - 1),
               calls := calls w @ [PrefsSetInt64 next_op_key (- 1), ConvertToCowOperations]\<rparr>"
  define ops where "ops = convert E (operations w) (merge_operations w)"
  define w3 where "w3 = snd (WriteAllCowOps E (block_size w) ops w2)"
  obtain ws where ws: "calls w3 = calls w2 @ ws" "list_all is_copy_phase_write ws"
    unfolding w3_def using WriteAllCowOps_calls by blast
  have w3: "w3 = w2\<lparr>calls := calls w2 @ ws\<rparr>"
    using WriteAllCowOps_frame [of E "block_size w" ops w2] ws(1) by (simp add: w3_def)
  have first: "SetInt64 E next_op_key (- 1) w =
                 (True, w\<lparr>prefs := (prefs w)(next_op_key \<mapsto> - 1),
                           calls := calls w @ [PrefsSetInt64 next_op_key (- 1)]\<rparr>)"
    using True by (simp add: call_defs)
  have "Init_copy_phase E w =
          (case external_call E (CowAddLabel 0) w3 of
             (ignored2, w4) \<Rightarrow>
               (case SetInt64 E next_op_key 0 w4 of
                  (ok5, w5) \<Rightarrow> if \<not> ok5 then (False, w5) else (True, w5)))"
    by (simp add: Init_copy_phase_def first Let_def split_beta w3_def w2_def ops_def
          record_call_def)
  also have "\<dots> =
      (if succeeds E (calls w2 @ ws @ [CowAddLabel 0]) (PrefsSetInt64 next_op_key 0)
       then (True, w2\<lparr>prefs := (prefs w2)(next_op_key \<mapsto> 0),
                      calls := calls w2 @ ws @ [CowAddLabel 0, PrefsSetInt64 next_op_key 0]\<rparr>)
       else (False, w2\<lparr>calls := calls w2 @ ws
                                 @ [CowAddLabel 0, PrefsSetInt64 next_op_key 0]\<rparr>))"
    by (simp add: w3 call_defs)
  finally have result: "Init_copy_phase E w =
      (if succeeds E (calls w2 @ ws @ [CowAddLabel 0]) (PrefsSetInt64 next_op_key 0)
       then (True, w2\<lparr>prefs := (prefs w2)(next_op_key \<mapsto> 0),
                      calls := calls w2 @ ws @ [CowAddLabel 0, PrefsSetInt64 next_op_key 0]\<rparr>)
       else (False, w2\<lparr>calls := calls w2 @ ws
                                 @ [CowAddLabel 0, PrefsSetInt64 next_op_key 0]\<rparr>))" .
  have "\<exists>ws. list_all is_copy_phase_write ws
              \<and> snd (WriteAllCowOps E (block_size w) ops w2) = w2\<lparr>calls := calls w2 @ ws\<rparr>
              \<and> Init_copy_phase E w =
                  (if succeeds E (calls w2 @ ws @ [CowAddLabel 0]) (PrefsSetInt64 next_op_key 0)
                   then (True, w2\<lparr>prefs := (prefs w2)(next_op_key \<mapsto> 0),
                                  calls := calls w2 @ ws
                                             @ [CowAddLabel 0, PrefsSetInt64 next_op_key 0]\<rparr>)
                   else (False, w2\<lparr>calls := calls w2 @ ws
                                             @ [CowAddLabel 0, PrefsSetInt64 next_op_key 0]\<rparr>))"
    using ws(2) w3 result unfolding w3_def by blast
  then show ?thesis
    using True unfolding Let_def w2_def ops_def by simp
qed

theorem Init_copy_phase_order_witness:
  "Init_copy_phase all_succeed (writer0\<lparr>cow_writer := True, calls := [CowInitialize]\<rparr>) =
     (True, writer0\<lparr>cow_writer := True, prefs := [next_op_key \<mapsto> 0],
                    calls := [CowInitialize, PrefsSetInt64 next_op_key (- 1),
                              ConvertToCowOperations,
                              CowAddCopy 0 10, PReadAll 2 40, CowAddRawBlocks 1 [7, 9] 2,
                              CowAddLabel 0, PrefsSetInt64 next_op_key 0]\<rparr>)"
proof -
  have buffer: "replicate 2 (0 :: byte) = [0, 0]" by (simp add: numeral_2_eq_2)
  show ?thesis
    using Init_copy_phase_order
            [of all_succeed "writer0\<lparr>cow_writer := True, calls := [CowInitialize]\<rparr>"]
    by (auto simp add: buffer all_succeed_def writer0_def example_ops_def WriteAllCowOps_def
          call_defs overwrite_def Let_def)
qed

text \<open>
  C3. \<open>Init\<close> on a resume, once the base class is initialised and a COW writer is
  obtained: it reads the checkpoint (state \<open>w1\<close>). When the read fails, it returns
  false. When the value is negative, it calls \<open>Initialize\<close> and, if that succeeds,
  goes on with the copy phase. When the value \<open>n\<close> is not negative, it calls
  \<open>InitializeAppend n\<close> and returns its result at once: the state then holds that one
  call more, so the converter and the source were not called, no label was added and
  the store was not written.
\<close>

theorem Init_resume:
  assumes "is_resume plan"
      and "succeeds E (calls w) (BaseInit source_may_exist)"
      and "succeeds E (calls w @ [BaseInit source_may_exist])
             (OpenCowWriter (partition_name w) (source_path w) True)"
      and "w1 = w\<lparr>cow_writer := True,
                   calls := calls w @ [BaseInit source_may_exist,
                                       OpenCowWriter (partition_name w) (source_path w) True,
                                       PrefsGetInt64 next_op_key]\<rparr>"
      and "checkpoint =
             (if succeeds E (calls w @ [BaseInit source_may_exist,
                                        OpenCowWriter (partition_name w) (source_path w) True])
                   (PrefsGetInt64 next_op_key)
              then prefs w next_op_key else None)"
  shows "(checkpoint = None \<longrightarrow> Init E (Some plan) source_may_exist w = (False, w1))
       \<and> (\<forall>n. checkpoint = Some n \<and> sint n < 0 \<longrightarrow>
              Init E (Some plan) source_may_exist w =
                (if succeeds E (calls w1) CowInitialize
                 then Init_copy_phase E (w1\<lparr>calls := calls w1 @ [CowInitialize]\<rparr>)
                 else (False, w1\<lparr>calls := calls w1 @ [CowInitialize]\<rparr>)))
       \<and> (\<forall>n. checkpoint = Some n \<and> 0 \<le> sint n \<longrightarrow>
              Init E (Some plan) source_may_exist w =
                (succeeds E (calls w1) (CowInitializeAppend n),
                 w1\<lparr>calls := calls w1 @ [CowInitializeAppend n]\<rparr>))"
  using assms by (auto simp add: Init_def call_defs split: option.splits)

theorem Init_resume_witness:
  "Init all_succeed (Some \<lparr>is_resume = True\<rparr>) True (writer0\<lparr>prefs := [next_op_key \<mapsto> 3]\<rparr>) =
     (True, writer0\<lparr>cow_writer := True, prefs := [next_op_key \<mapsto> 3],
                     calls := [BaseInit True, OpenCowWriter ''system'' ''system_a'' True,
                               PrefsGetInt64 next_op_key, CowInitializeAppend 3]\<rparr>)
   \<and> Init all_succeed (Some \<lparr>is_resume = True\<rparr>) True writer0 =
     (False, writer0\<lparr>cow_writer := True,
                      calls := [BaseInit True, OpenCowWriter ''system'' ''system_a'' True,
                                PrefsGetInt64 next_op_key]\<rparr>)
   \<and> Init all_succeed (Some \<lparr>is_resume = True\<rparr>) True
       (writer0\<lparr>prefs := [next_op_key \<mapsto> - 1]\<rparr>) =
     Init_copy_phase all_succeed
       (writer0\<lparr>cow_writer := True, prefs := [next_op_key \<mapsto> - 1],
                calls := [BaseInit True, OpenCowWriter ''system'' ''system_a'' True,
                          PrefsGetInt64 next_op_key, CowInitialize]\<rparr>)"
  using Init_resume [of "\<lparr>is_resume = True\<rparr>" all_succeed
                        "writer0\<lparr>prefs := [next_op_key \<mapsto> 3]\<rparr>" True, OF _ _ _ refl refl]
        Init_resume [of "\<lparr>is_resume = True\<rparr>" all_succeed writer0 True, OF _ _ _ refl refl]
        Init_resume [of "\<lparr>is_resume = True\<rparr>" all_succeed
                        "writer0\<lparr>prefs := [next_op_key \<mapsto> - 1]\<rparr>" True, OF _ _ _ refl refl]
  by (simp add: all_succeed_def writer0_def)

section \<open>Streaming the copy phase\<close>

text \<open>
  C7. A \<open>Replace\<close> operation \<open>c\<close> that \<open>WriteAllCowOps\<close> reaches (the operations
  \<open>pre\<close> before it succeeded, leaving the buffer \<open>buffer\<close> and the state \<open>w\<close>) makes
  one read of \<open>bs\<close> bytes at offset \<open>src_block c * bs\<close> (64-bit arithmetic). When the
  read fails, gives zero bytes, or gives fewer bytes than the block size,
  \<open>WriteAllCowOps\<close> returns false in a state where that read is the last call:
  nothing is written to the log for \<open>c\<close>. When the read gives the whole block (the
  block size being a positive \<open>ssize_t\<close>), the next call is
  \<open>AddRawBlocks (dst_block c, buffer, bs)\<close>; its failure is the failure of
  \<open>WriteAllCowOps\<close>, and after its success the remaining operations follow.
\<close>

theorem Replace_read_integrity:
  assumes "WriteAllCowOps_loop E bs pre (replicate (unat bs) 0) start = (True, buffer, w)"
      and "op c = CowReplace"
      and "pread E (calls w) bs (src_block c * bs) = (ok, n, bytes)"
      and "w1 = w\<lparr>calls := calls w @ [PReadAll bs (src_block c * bs)]\<rparr>"
      and "buffer1 = overwrite buffer bytes"
      and "w2 = w1\<lparr>calls := calls w1 @ [CowAddRawBlocks (dst_block c) buffer1 bs]\<rparr>"
  shows "(\<not> ok \<or> n = 0 \<or> n < bs \<longrightarrow>
            WriteAllCowOps E bs (pre @ c # rest) start = (False, w1))
       \<and> (ok \<and> n = bs \<and> 0 < sint bs \<longrightarrow>
            WriteAllCowOps E bs (pre @ c # rest) start =
              (if succeeds E (calls w1) (CowAddRawBlocks (dst_block c) buffer1 bs)
               then (case WriteAllCowOps_loop E bs rest buffer1 w2 of (r, b, w') \<Rightarrow> (r, w'))
               else (False, w2)))"
  using assms
  by (auto simp add: WriteAllCowOps_def WriteAllCowOps_loop_append call_defs)

theorem Replace_read_integrity_witness:
  "WriteAllCowOps short_read 2 example_ops (writer0\<lparr>cow_writer := True\<rparr>) =
     (False, writer0\<lparr>cow_writer := True, calls := [CowAddCopy 0 10, PReadAll 2 40]\<rparr>)
   \<and> WriteAllCowOps all_succeed 2 example_ops (writer0\<lparr>cow_writer := True\<rparr>) =
     (True, writer0\<lparr>cow_writer := True,
                    calls := [CowAddCopy 0 10, PReadAll 2 40, CowAddRawBlocks 1 [7, 9] 2]\<rparr>)"
proof -
  have buffer: "replicate 2 (0 :: byte) = [0, 0]" by (simp add: numeral_2_eq_2)
  show ?thesis
    using Replace_read_integrity
            [where E = short_read and bs = 2 and start = "writer0\<lparr>cow_writer := True\<rparr>"
               and pre = "[\<lparr>op = CowCopy, src_block = 10, dst_block = 0\<rparr>]"
               and c = "\<lparr>op = CowReplace, src_block = 20, dst_block = 1\<rparr>"
               and rest = "[]" and buffer = "[0, 0]"
               and w = "writer0\<lparr>cow_writer := True, calls := [CowAddCopy 0 10]\<rparr>"
               and ok = True and n = 1 and bytes = "[7]", OF _ _ _ refl refl refl]
          Replace_read_integrity
            [where E = all_succeed and bs = 2 and start = "writer0\<lparr>cow_writer := True\<rparr>"
               and pre = "[\<lparr>op = CowCopy, src_block = 10, dst_block = 0\<rparr>]"
               and c = "\<lparr>op = CowReplace, src_block = 20, dst_block = 1\<rparr>"
               and rest = "[]" and buffer = "[0, 0]"
               and w = "writer0\<lparr>cow_writer := True, calls := [CowAddCopy 0 10]\<rparr>"
               and ok = True and n = 2 and bytes = "[7, 9]", OF _ _ _ refl refl refl]
    by (simp add: buffer short_read_def all_succeed_def writer0_def example_ops_def call_defs
          overwrite_def)
qed

section \<open>Write primitives of the replay phase\<close>

text \<open>
  C8. On a writer that holds a COW writer, \<open>PerformZeroOrDiscardOperation\<close> calls
  \<open>AddZeroBlocks (start_block, num_blocks)\<close> for the destination extents in their
  order. When every call is accepted, it has made one call for each extent and returns
  true. When the call for extent \<open>n\<close> is the first one rejected, it returns false
  right after that call: the calls for the extents up to \<open>n\<close> were made, none for
  the later ones. So it returns true exactly when every call is accepted.
\<close>

theorem PerformZeroOrDiscardOperation_result:
  assumes "cow_writer w" and "exts = dst_extents operation"
  shows "((\<forall>i<length exts. zero_accepted E w exts i) \<longrightarrow>
            PerformZeroOrDiscardOperation E operation w =
              Inr (True, w\<lparr>calls := calls w @ map zero_call exts\<rparr>))
       \<and> (\<forall>n<length exts. (\<forall>i<n. zero_accepted E w exts i) \<and> \<not> zero_accepted E w exts n \<longrightarrow>
            PerformZeroOrDiscardOperation E operation w =
              Inr (False, w\<lparr>calls := calls w @ map zero_call (take (Suc n) exts)\<rparr>))
       \<and> ((\<exists>w'. PerformZeroOrDiscardOperation E operation w = Inr (True, w'))
            \<longleftrightarrow> (\<forall>i<length exts. zero_accepted E w exts i))"
proof (intro conjI)
  show all: "(\<forall>i<length exts. zero_accepted E w exts i) \<longrightarrow>
            PerformZeroOrDiscardOperation E operation w =
              Inr (True, w\<lparr>calls := calls w @ map zero_call exts\<rparr>)"
    using assms AddZeroBlocks_loop_all [of w exts E]
    by (simp add: PerformZeroOrDiscardOperation_def)
  show first: "\<forall>n<length exts. (\<forall>i<n. zero_accepted E w exts i) \<and> \<not> zero_accepted E w exts n \<longrightarrow>
            PerformZeroOrDiscardOperation E operation w =
              Inr (False, w\<lparr>calls := calls w @ map zero_call (take (Suc n) exts)\<rparr>)"
    using assms AddZeroBlocks_loop_first_failure [of w _ exts E]
    by (simp add: PerformZeroOrDiscardOperation_def)
  show "(\<exists>w'. PerformZeroOrDiscardOperation E operation w = Inr (True, w'))
            \<longleftrightarrow> (\<forall>i<length exts. zero_accepted E w exts i)"
  proof
    assume "\<forall>i<length exts. zero_accepted E w exts i"
    with all show "\<exists>w'. PerformZeroOrDiscardOperation E operation w = Inr (True, w')" by simp
  next
    assume ret: "\<exists>w'. PerformZeroOrDiscardOperation E operation w = Inr (True, w')"
    show "\<forall>i<length exts. zero_accepted E w exts i"
    proof (rule ccontr)
      assume "\<not> (\<forall>i<length exts. zero_accepted E w exts i)"
      then obtain j where j: "j < length exts \<and> \<not> zero_accepted E w exts j" by auto
      define n where "n = (LEAST j. j < length exts \<and> \<not> zero_accepted E w exts j)"
      have n: "n < length exts \<and> \<not> zero_accepted E w exts n"
        unfolding n_def using j by (rule LeastI)
      have "\<forall>i<n. zero_accepted E w exts i"
      proof (intro allI impI)
        fix i assume "i < n"
        then have "\<not> (i < length exts \<and> \<not> zero_accepted E w exts i)"
          unfolding n_def by (rule not_less_Least)
        with \<open>i < n\<close> n show "zero_accepted E w exts i" by simp
      qed
      with first n have "PerformZeroOrDiscardOperation E operation w =
              Inr (False, w\<lparr>calls := calls w @ map zero_call (take (Suc n) exts)\<rparr>)" by simp
      with ret show False by simp
    qed
  qed
qed

theorem PerformZeroOrDiscardOperation_result_witness:
  "PerformZeroOrDiscardOperation all_succeed example_zero (writer_at 0) =
     Inr (True, (writer_at 0)\<lparr>calls := [CowAddZeroBlocks 0 4, CowAddZeroBlocks 8 2,
                                          CowAddZeroBlocks 16 1]\<rparr>)
   \<and> PerformZeroOrDiscardOperation second_zero_rejected example_zero (writer_at 0) =
     Inr (False, (writer_at 0)\<lparr>calls := [CowAddZeroBlocks 0 4, CowAddZeroBlocks 8 2]\<rparr>)"
proof -
  let ?exts = "dst_extents example_zero"
  have cw: "cow_writer (writer_at 0)"
    by (simp add: writer_at_def writer0_def)
  have all: "\<forall>i<length ?exts. zero_accepted all_succeed (writer_at 0) ?exts i"
    by (simp add: zero_accepted_def all_succeed_def)
  have n: "Suc 0 < length ?exts"
    by (simp add: example_zero_def)
  have before: "\<forall>i<Suc 0. zero_accepted second_zero_rejected (writer_at 0) ?exts i"
    by (simp add: zero_accepted_def second_zero_rejected_def all_succeed_def
          example_zero_def zero_call_def)
  have bad: "\<not> zero_accepted second_zero_rejected (writer_at 0) ?exts (Suc 0)"
    by (simp add: zero_accepted_def second_zero_rejected_def all_succeed_def
          example_zero_def zero_call_def)
  have "PerformZeroOrDiscardOperation all_succeed example_zero (writer_at 0) =
          Inr (True, (writer_at 0)\<lparr>calls := calls (writer_at 0) @ map zero_call ?exts\<rparr>)"
    using PerformZeroOrDiscardOperation_result
            [OF cw refl, where E = all_succeed and operation = example_zero] all
    by blast
  moreover
  have "PerformZeroOrDiscardOperation second_zero_rejected example_zero (writer_at 0) =
          Inr (False, (writer_at 0)\<lparr>calls := calls (writer_at 0)
                                      @ map zero_call (take (Suc (Suc 0)) ?exts)\<rparr>)"
    using PerformZeroOrDiscardOperation_result
            [OF cw refl, where E = second_zero_rejected and operation = example_zero]
          n before bad
    by blast
  ultimately show ?thesis
    by (simp add: example_zero_def zero_call_def writer_at_def writer0_def)
qed

text \<open>
  C9. \<open>PerformSourceCopyOperation\<close> returns true for every operation and leaves
  everything as it was: the error code, the checkpoint store and the list of calls,
  so it writes nothing to the log or to the store and reads nothing from the source.
\<close>

theorem PerformSourceCopyOperation_no_op:
  "PerformSourceCopyOperation operation err w = (True, err, w)"
  by (simp add: PerformSourceCopyOperation_def)

section \<open>Checkpoint and flush\<close>

text \<open>
  C4, as the claim states it, fails: with the checkpoint at 5 and a COW writer that
  rejects every label, \<open>Flush\<close> requests label 6 and returns true.
\<close>

theorem Flush_ignores_label_failure:
  "Flush label_rejected (writer_at 5) =
     Inr (True, (writer_at 5)\<lparr>calls := [PrefsGetInt64 next_op_key, CowAddLabel 6]\<rparr>)
   \<and> \<not> succeeds label_rejected [PrefsGetInt64 next_op_key] (CowAddLabel 6)"
  by (simp add: Flush_def call_defs label_rejected_def all_succeed_def writer_at_def writer0_def)

text \<open>
  C4, amended. On a writer that holds a COW writer, \<open>Flush\<close> reads the checkpoint
  once. When the read fails it returns false and makes no other call, so no label is
  added. When the read gives \<open>n\<close> it requests label \<open>n + 1\<close> (in 64-bit arithmetic)
  and returns true, whatever the COW writer answers to the request.
\<close>

theorem Flush_result:
  assumes "cow_writer w"
  shows "Flush E w =
     (case (if succeeds E (calls w) (PrefsGetInt64 next_op_key)
            then prefs w next_op_key else None) of
        None \<Rightarrow> Inr (False, w\<lparr>calls := calls w @ [PrefsGetInt64 next_op_key]\<rparr>)
      | Some n \<Rightarrow>
          Inr (True, w\<lparr>calls := calls w @ [PrefsGetInt64 next_op_key, CowAddLabel (n + 1)]\<rparr>))"
  using assms by (simp add: Flush_def call_defs split: option.splits)

theorem Flush_result_witness:
  "Flush all_succeed (writer_at 5) =
     Inr (True, (writer_at 5)\<lparr>calls := [PrefsGetInt64 next_op_key, CowAddLabel 6]\<rparr>)
   \<and> Flush all_succeed (writer0\<lparr>cow_writer := True\<rparr>) =
     Inr (False, writer0\<lparr>cow_writer := True, calls := [PrefsGetInt64 next_op_key]\<rparr>)"
  using Flush_result [of "writer_at 5" all_succeed]
        Flush_result [of "writer0\<lparr>cow_writer := True\<rparr>" all_succeed]
  by (simp add: all_succeed_def writer_at_def writer0_def)

text \<open>
  C5, as the claim states it, fails: with the checkpoint at 3 and a store that
  rejects the write of 5, \<open>CheckpointUpdateProgress 5\<close> leaves the checkpoint at 3
  and hands its caller what it hands it when the write succeeds, the \<open>void\<close> result.
\<close>

theorem CheckpointUpdateProgress_hides_failure:
  "\<not> succeeds store_rejects (calls (writer_at 3)) (PrefsSetInt64 next_op_key 5)
   \<and> CheckpointUpdateProgress store_rejects 5 (writer_at 3) =
       ((), (writer_at 3)\<lparr>calls := [PrefsSetInt64 next_op_key 5]\<rparr>)
   \<and> prefs (snd (CheckpointUpdateProgress store_rejects 5 (writer_at 3))) next_op_key = Some 3
   \<and> fst (CheckpointUpdateProgress store_rejects 5 (writer_at 3)) =
       fst (CheckpointUpdateProgress all_succeed 5 (writer_at 3))"
  by (simp add: CheckpointUpdateProgress_def call_defs store_rejects_def all_succeed_def
        writer_at_def writer0_def)

text \<open>
  C5, amended. \<open>CheckpointUpdateProgress next_op_index\<close> makes one store write of
  \<open>next_op_index\<close> (the \<open>size_t\<close> read as \<open>int64_t\<close>) under the checkpoint key and
  returns nothing. When the store accepts the write, the checkpoint is
  \<open>next_op_index\<close>; when it rejects it, the checkpoint keeps its value, and the
  caller is not told.
\<close>

theorem CheckpointUpdateProgress_result:
  "CheckpointUpdateProgress E next_op_index w =
     ((), if succeeds E (calls w) (PrefsSetInt64 next_op_key next_op_index)
          then w\<lparr>prefs := (prefs w)(next_op_key \<mapsto> next_op_index),
                 calls := calls w @ [PrefsSetInt64 next_op_key next_op_index]\<rparr>
          else w\<lparr>calls := calls w @ [PrefsSetInt64 next_op_key next_op_index]\<rparr>)"
  by (simp add: CheckpointUpdateProgress_def call_defs)

theorem CheckpointUpdateProgress_result_witness:
  "CheckpointUpdateProgress all_succeed 5 (writer_at 3) =
     ((), (writer_at 3)\<lparr>prefs := [next_op_key \<mapsto> 5], calls := [PrefsSetInt64 next_op_key 5]\<rparr>)"
  using CheckpointUpdateProgress_result [of all_succeed 5 "writer_at 3"]
  by (simp add: all_succeed_def writer_at_def writer0_def)

text \<open>
  C10. \<open>Flush\<close> only reads the checkpoint store. It returns on every writer that
  holds a COW writer, and whenever it returns, with success or with failure, the store
  is what it was and none of the calls it made is a store write.
\<close>

theorem Flush_keeps_checkpoint:
  "(cow_writer w \<longrightarrow> (\<exists>r w'. Flush E w = Inr (r, w')))
   \<and> (\<forall>r w'. Flush E w = Inr (r, w') \<longrightarrow>
         prefs w' = prefs w
         \<and> (\<exists>ws. calls w' = calls w @ ws \<and> \<not> list_ex is_prefs_write ws))"
  by (auto simp add: Flush_def call_defs split: option.splits if_splits)

theorem Flush_keeps_checkpoint_witness:
  "cow_writer (writer_at 5)
   \<and> (\<exists>r w'. Flush label_rejected (writer_at 5) = Inr (r, w')
          \<and> prefs w' next_op_key = Some 5)"
  using Flush_keeps_checkpoint [of "writer_at 5" label_rejected]
  by (auto simp add: writer_at_def writer0_def)

section \<open>Teardown\<close>

text \<open>
  C6. Claimed: at teardown the checkpoint is reset to \<open>-1\<close> and then the log is
  finalised, once, on every path, also when \<open>Init\<close> failed. After an \<open>Init\<close> that
  failed because \<open>OpenCowWriter\<close> returned no writer, \<open>cow_writer_\<close> is null and
  the destructor, which calls \<open>Finalize\<close> through it without a test, does not
  return. (With a COW writer in place the destructor does what is claimed:
  \<open>destructor_with_cow_writer\<close>.)
\<close>

theorem destructor_after_failed_Init:
  "Init no_cow_writer (Some \<lparr>is_resume = False\<rparr>) True writer0 =
     (False, writer0\<lparr>calls := [BaseInit True, OpenCowWriter ''system'' ''system_a'' False]\<rparr>)
   \<and> destructor no_cow_writer
       (writer0\<lparr>calls := [BaseInit True, OpenCowWriter ''system'' ''system_a'' False]\<rparr>)
       = Inl NullPointerDereference"
  by (simp add: destructor_def Init_def call_defs no_cow_writer_def all_succeed_def writer0_def)

end
